theory Spec2Isabelle
  imports Main "HOL-Library.Word"
begin

unbundle bit_operations_syntax

section \<open>The kernel monitor of JOS: \<open>kern/monitor.c\<close>\<close>

text \<open>
  The two commands verified here are \<open>mon_backtrace\<close> (the stack unwinder) and
  \<open>mon_showmap\<close> (the mapping inspector). JOS runs on 32-bit x86: \<open>uint32_t\<close>,
  \<open>uintptr_t\<close>, \<open>size_t\<close> and \<open>pte_t\<close> are all \<open>32 word\<close>, and a pointer is the
  \<open>32 word\<close> holding its address. \<open>int\<close> values that are only compared or printed
  (\<open>argc\<close>, the status codes, \<open>eip_line\<close>) are HOL integers.
\<close>

type_synonym u32 = "32 word"

subsection \<open>Console output\<close>

text \<open>
  \<open>cprintf\<close> is not rendered: the console is the list of the calls made to it, each with
  its format string and the values of its arguments, in program order.
\<close>

datatype fmt_arg = ArgWord u32 | ArgInt int | ArgStr string

datatype cprintf_call = Cprintf string "fmt_arg list"

subsection \<open>Kernel state and collaborators\<close>

text \<open>\<open>struct Eipdebuginfo\<close> (\<open>kern/kdebug.h\<close>), the fields that the monitor reads.\<close>

record Eipdebuginfo =
  eip_file :: string
  eip_line :: int
  eip_fn_name :: string
  eip_fn_namelen :: int
  eip_fn_addr :: u32

text \<open>
  The state the two commands read and write. \<open>kern_pgdir\<close> is the global page directory,
  of a type \<open>'pt\<close> that only the page-table walker looks into; \<open>stack_mem\<close> is memory, read
  a 32-bit word at a time at a byte address. The three logs record the interaction with
  the collaborators: every call of \<open>pgdir_walk\<close> with its address, its \<open>create\<close> argument
  and the entry it returned (\<open>None\<close> for a null pointer, otherwise the value of \<open>*pte\<close>),
  every address given to \<open>debuginfo_eip\<close>, and every address loaded through \<open>prev\<close>.
\<close>

record 'pt kstate =
  console :: "cprintf_call list"
  kern_pgdir :: 'pt
  stack_mem :: "u32 \<Rightarrow> u32"
  walk_calls :: "(u32 \<times> int \<times> u32 option) list"
  eip_calls :: "u32 list"
  loads :: "u32 list"

text \<open>
  What \<open>monitor.c\<close> uses and does not define, taken as parameters:
  \<^item> \<open>strtol\<close> (\<open>lib/string.c\<close>), always called with end pointer 0 and base 0, returning a
    \<open>long\<close>;
  \<^item> \<open>pgdir_walk\<close> (\<open>kern/pmap.c\<close>), which may change the page directory and returns the
    entry;
  \<^item> the permission bits \<open>PTE_P\<close>, \<open>PTE_W\<close>, \<open>PTE_U\<close> (\<open>inc/mmu.h\<close>);
  \<^item> \<open>debuginfo_eip\<close> (\<open>kern/kdebug.c\<close>), returning its status and the \<open>info\<close> it filled;
  \<^item> \<open>read_ebp\<close> (\<open>inc/x86.h\<close>), the frame pointer register when the command runs.
\<close>

record 'pt kenv =
  strtol :: "string \<Rightarrow> int"
  pgdir_walk :: "'pt \<Rightarrow> u32 \<Rightarrow> int \<Rightarrow> 'pt \<times> u32 option"
  PTE_P :: u32
  PTE_W :: u32
  PTE_U :: u32
  debuginfo_eip :: "u32 \<Rightarrow> int \<times> Eipdebuginfo"
  read_ebp :: u32

definition cprintf :: "string \<Rightarrow> fmt_arg list \<Rightarrow> 'pt kstate \<Rightarrow> 'pt kstate" where
  "cprintf fmt args st = st\<lparr>console := console st @ [Cprintf fmt args]\<rparr>"

text \<open>
  Modelled from the spec: \<open>PGSIZE\<close> and \<open>PTE_ADDR\<close> of \<open>inc/mmu.h\<close> and \<open>ROUNDDOWN\<close> of
  \<open>inc/types.h\<close>, which are not among the sources. The page size is 4096 bytes (the usage
  message of \<open>mon_showmap\<close> says "a 4KB page"), \<open>PTE_ADDR\<close> clears the page-offset bits
  of an entry, and \<open>ROUNDDOWN\<close> rounds down to a multiple of its second argument.
\<close>

definition PGSIZE :: u32 where
  "PGSIZE = 4096"

definition PTE_ADDR :: "u32 \<Rightarrow> u32" where
  "PTE_ADDR pte = pte AND NOT 0xFFF"

definition ROUNDDOWN :: "u32 \<Rightarrow> u32 \<Rightarrow> u32" where
  "ROUNDDOWN a n = a - a mod n"

text \<open>C's \<open>!!x\<close>: 1 when \<open>x\<close> is not zero, 0 otherwise.\<close>

definition notnot :: "u32 \<Rightarrow> int" where
  "notnot x = (if x \<noteq> 0 then 1 else 0)"

subsection \<open>\<open>mon_backtrace\<close>\<close>

text \<open>\<open>prev[i]\<close> for \<open>uint32_t *prev\<close>: the word at byte address \<open>prev + 4 * i\<close>.\<close>

definition deref :: "'pt kstate \<Rightarrow> u32 \<Rightarrow> u32 \<Rightarrow> u32" where
  "deref st prev i = stack_mem st (prev + 4 * i)"

definition backtrace_header :: string where
  "backtrace_header = ''Stack backtrace:'' @ [CHR 0x0A]"

definition frame_fmt :: string where
  "frame_fmt = ''ebp %x  eip %x  args %08x %08x %08x %08x %08x'' @ [CHR 0x0A]"

definition loc_fmt :: string where
  "loc_fmt = ''     %s:%d: %.*s+%d'' @ [CHR 0x0A]"

text \<open>The two \<open>cprintf\<close> calls of the loop body (lines 75 and 76), as the calls they make.\<close>

definition frame_lines :: "'pt kstate \<Rightarrow> u32 \<Rightarrow> u32 \<Rightarrow> Eipdebuginfo \<Rightarrow> cprintf_call list" where
  "frame_lines st ebp prev info =
     [Cprintf frame_fmt
        [ArgWord ebp, ArgWord (deref st prev 1), ArgWord (deref st prev 2), ArgWord (deref st prev 3),
         ArgWord (deref st prev 4), ArgWord (deref st prev 5), ArgWord (deref st prev 6)],
      Cprintf loc_fmt
        [ArgStr (eip_file info), ArgInt (eip_line info), ArgInt (eip_fn_namelen info),
         ArgStr (eip_fn_name info), ArgWord (deref st prev 1 - eip_fn_addr info)]]"

text \<open>The addresses the loop body loads, in the order of the text: lines 75, 76, 77.\<close>

definition body_loads :: "u32 \<Rightarrow> u32 list" where
  "body_loads prev =
     [prev + 4 * 1, prev + 4 * 2, prev + 4 * 3, prev + 4 * 4, prev + 4 * 5, prev + 4 * 6,
      prev + 4 * 1, prev + 4 * 0]"

text \<open>
  The \<open>while\<close> loop of lines 70 to 81, on the two variables \<open>ebp\<close> and \<open>prev\<close>. The
  condition is evaluated left to right and \<open>&&\<close> stops at \<open>ebp == 0\<close>: then \<open>prev[1]\<close> is
  not loaded and \<open>debuginfo_eip\<close> not called. Nothing bounds the number of iterations,
  so the loop is a partial function: \<open>None\<close> is "does not return".
\<close>

partial_function (option) backtrace_loop ::
  "'pt kenv \<Rightarrow> u32 \<Rightarrow> u32 \<Rightarrow> 'pt kstate \<Rightarrow> 'pt kstate option" where
  "backtrace_loop env ebp prev st =
     (if ebp = 0 then Some st
      else
        let eip = deref st prev 1;
            st1 = st\<lparr>loads := loads st @ [prev + 4 * 1], eip_calls := eip_calls st @ [eip]\<rparr>;
            r = debuginfo_eip env eip
        in if fst r \<noteq> 0 then Some st1
           else
             let st2 = st1\<lparr>console := console st1 @ frame_lines st1 ebp prev (snd r),
                           loads := loads st1 @ body_loads prev\<rparr>;
                 ebp' = deref st2 prev 0;
                 prev' = ebp'
             in backtrace_loop env ebp' prev' st2)"

text \<open>
  \<open>mon_backtrace(argc, argv, tf)\<close>. \<open>argv\<close> is the array of argument strings, indexed from 0
  (\<open>char **\<close> carries no length), \<open>tf\<close> the address of the trap frame or 0.
\<close>

definition mon_backtrace ::
  "'pt kenv \<Rightarrow> int \<Rightarrow> (nat \<Rightarrow> string) \<Rightarrow> u32 \<Rightarrow> 'pt kstate \<Rightarrow> (int \<times> 'pt kstate) option" where
  "mon_backtrace env argc argv tf st =
     (let ebp = read_ebp env;
          prev = ebp;
          st1 = cprintf backtrace_header [] st
      in map_option (Pair 0) (backtrace_loop env ebp prev st1))"

subsection \<open>\<open>mon_showmap\<close>\<close>

definition showmap_msg :: string where
  "showmap_msg = ''Usage: showmappings <start> [<length>]'' @ [CHR 0x0A]
     @ ''length represents a 4KB page'' @ [CHR 0x0A]"

definition mapped_fmt :: string where
  "mapped_fmt = ''VA: 0x%08x, PA: 0x%08x, U-bit: %d, W-bit: %d'' @ [CHR 0x0A]"

definition nomap_fmt :: string where
  "nomap_fmt = ''VA: 0x%08x, PA: No Mapping'' @ [CHR 0x0A]"

text \<open>
  The body of the \<open>while\<close> loop without the increment (lines 108 to 114): one call of
  \<open>pgdir_walk\<close> with \<open>create = 0\<close>, which is logged and may replace the page directory,
  then one report line.
\<close>

definition showmap_page :: "'pt kenv \<Rightarrow> u32 \<Rightarrow> 'pt kstate \<Rightarrow> 'pt kstate" where
  "showmap_page env vstart st =
     (let w = pgdir_walk env (kern_pgdir st) vstart 0;
          pte = snd w;
          st1 = st\<lparr>kern_pgdir := fst w, walk_calls := walk_calls st @ [(vstart, 0, pte)]\<rparr>
      in if pte \<noteq> None \<and> the pte AND PTE_P env \<noteq> 0
         then cprintf mapped_fmt
                [ArgWord vstart, ArgWord (PTE_ADDR (the pte)),
                 ArgInt (notnot (the pte AND PTE_U env)), ArgInt (notnot (the pte AND PTE_W env))] st1
         else cprintf nomap_fmt [ArgWord vstart] st1)"

text \<open>
  The \<open>while (vstart < vend)\<close> loop, with the unsigned comparison and the wrapping
  \<open>vstart += PGSIZE\<close> of the source. For arbitrary words it need not end (\<open>vend\<close> above
  the last page boundary), so it is a partial function; that it ends for the values
  \<open>mon_showmap\<close> gives it is proved below.
\<close>

partial_function (option) showmap_loop ::
  "'pt kenv \<Rightarrow> u32 \<Rightarrow> u32 \<Rightarrow> 'pt kstate \<Rightarrow> 'pt kstate option" where
  "showmap_loop env vstart vend st =
     (if vstart < vend
      then showmap_loop env (vstart + PGSIZE) vend (showmap_page env vstart st)
      else Some st)"

definition mon_showmap ::
  "'pt kenv \<Rightarrow> int \<Rightarrow> (nat \<Rightarrow> string) \<Rightarrow> u32 \<Rightarrow> 'pt kstate \<Rightarrow> (int \<times> 'pt kstate) option" where
  "mon_showmap env argc argv tf st =
     (if argc < 2 then Some (0, cprintf showmap_msg [] st)
      else
        let vstart = (word_of_int (strtol env (argv 1)) :: u32);
            vlen = (if argc \<ge> 3 then word_of_int (strtol env (argv 2)) else 1 :: u32);
            vend = vstart + vlen * PGSIZE;
            vstart' = ROUNDDOWN vstart PGSIZE;
            vend' = ROUNDDOWN vend PGSIZE
        in map_option (Pair 0) (showmap_loop env vstart' vend' st))"

subsection \<open>Notions used in the statements\<close>

text \<open>
  The start address and the page count as \<open>mon_showmap\<close> parses them: the casts of lines
  99 and 100 reduce the \<open>long\<close> modulo \<open>2 ^ 32\<close>, and the count is 1 without a third
  argument.
\<close>

definition start_address :: "'pt kenv \<Rightarrow> (nat \<Rightarrow> string) \<Rightarrow> u32" where
  "start_address env argv = word_of_int (strtol env (argv 1))"

definition page_count :: "'pt kenv \<Rightarrow> int \<Rightarrow> (nat \<Rightarrow> string) \<Rightarrow> u32" where
  "page_count env argc argv = (if 3 \<le> argc then word_of_int (strtol env (argv 2)) else 1)"

text \<open>\<open>n\<close> consecutive page addresses from \<open>va\<close>, with the wrapping addition of the loop.\<close>

definition page_addrs :: "u32 \<Rightarrow> nat \<Rightarrow> u32 list" where
  "page_addrs va n = map (\<lambda>k. va + of_nat k * PGSIZE) [0..<n]"

text \<open>
  The pages the loop visits: from the rounded start, as many as fit below the rounded end
  (none when the end is not above the start).
\<close>

definition inspected_pages :: "'pt kenv \<Rightarrow> int \<Rightarrow> (nat \<Rightarrow> string) \<Rightarrow> u32 list" where
  "inspected_pages env argc argv =
     (let vstart = ROUNDDOWN (start_address env argv) PGSIZE;
          vend = ROUNDDOWN (start_address env argv + page_count env argc argv * PGSIZE) PGSIZE
      in page_addrs vstart ((unat vend - unat vstart) div 4096))"

text \<open>
  The log entries of looking up the pages \<open>vas\<close> one after the other from page directory
  \<open>pt\<close>, and the page directory that is left.
\<close>

fun walk_results :: "'pt kenv \<Rightarrow> 'pt \<Rightarrow> u32 list \<Rightarrow> (u32 \<times> int \<times> u32 option) list" where
  "walk_results env pt [] = []"
| "walk_results env pt (va # vas) =
     (va, 0, snd (pgdir_walk env pt va 0)) # walk_results env (fst (pgdir_walk env pt va 0)) vas"

fun walked_pgdir :: "'pt kenv \<Rightarrow> 'pt \<Rightarrow> u32 list \<Rightarrow> 'pt" where
  "walked_pgdir env pt [] = pt"
| "walked_pgdir env pt (va # vas) = walked_pgdir env (fst (pgdir_walk env pt va 0)) vas"

text \<open>The report line that belongs to a logged lookup.\<close>

definition report_row :: "'pt kenv \<Rightarrow> u32 \<times> int \<times> u32 option \<Rightarrow> cprintf_call" where
  "report_row env c =
     (case snd (snd c) of
        None \<Rightarrow> Cprintf nomap_fmt [ArgWord (fst c)]
      | Some e \<Rightarrow>
          if e AND PTE_P env = 0 then Cprintf nomap_fmt [ArgWord (fst c)]
          else Cprintf mapped_fmt
                 [ArgWord (fst c), ArgWord (e AND NOT 0xFFF),
                  ArgInt (if e AND PTE_U env = 0 then 0 else 1),
                  ArgInt (if e AND PTE_W env = 0 then 0 else 1)])"

text \<open>
  The virtual address of a report row: the first argument of a \<open>cprintf\<close> call with one of
  the two row formats; \<open>None\<close> for any other output.
\<close>

fun row_va :: "cprintf_call \<Rightarrow> u32 option" where
  "row_va (Cprintf fmt (ArgWord va # args)) =
     (if fmt = mapped_fmt \<or> fmt = nomap_fmt then Some va else None)"
| "row_va _ = None"

text \<open>
  A segment of a frame chain in memory \<open>mem\<close>: starting at \<open>ebp\<close>, the frames \<open>fps\<close> are
  non-null, each one's saved frame pointer (slot 0) is the next, and the last one's is
  \<open>nxt\<close>. With \<open>nxt = 0\<close> the chain is complete.
\<close>

fun frame_seg :: "(u32 \<Rightarrow> u32) \<Rightarrow> u32 \<Rightarrow> u32 list \<Rightarrow> u32 \<Rightarrow> bool" where
  "frame_seg mem ebp [] nxt = (ebp = nxt)"
| "frame_seg mem ebp (fp # fps) nxt = (ebp = fp \<and> fp \<noteq> 0 \<and> frame_seg mem (mem fp) fps nxt)"

text \<open>The return address of frame \<open>fp\<close> (slot 1) is resolved by \<open>debuginfo_eip\<close>.\<close>

definition resolves :: "'pt kenv \<Rightarrow> (u32 \<Rightarrow> u32) \<Rightarrow> u32 \<Rightarrow> bool" where
  "resolves env mem fp = (fst (debuginfo_eip env (mem (fp + 4))) = 0)"

text \<open>The entry of frame \<open>fp\<close>: its two lines, with the debug information of its return address.\<close>

definition frame_entry :: "'pt kenv \<Rightarrow> 'pt kstate \<Rightarrow> u32 \<Rightarrow> cprintf_call list" where
  "frame_entry env st fp = frame_lines st fp fp (snd (debuginfo_eip env (stack_mem st (fp + 4))))"

text \<open>The state after the loop has gone through the frames \<open>fps\<close>.\<close>

definition unwound :: "'pt kenv \<Rightarrow> u32 list \<Rightarrow> 'pt kstate \<Rightarrow> 'pt kstate" where
  "unwound env fps st =
     st\<lparr>console := console st @ concat (map (frame_entry env st) fps),
        eip_calls := eip_calls st @ map (\<lambda>fp. stack_mem st (fp + 4)) fps,
        loads := loads st @ concat (map (\<lambda>fp. (fp + 4) # body_loads fp) fps)\<rparr>"

subsection \<open>A concrete machine for the examples\<close>

text \<open>
  A decimal \<open>strtol\<close> that accumulates in a 32-bit \<open>long\<close>; a page directory that maps page addresses to entries, with a walker
  that adds an empty entry only when asked to create; the x86 permission bits; three
  functions \<open>A\<close>, \<open>B\<close> and \<open>entry\<close> known to the resolver; and a stack of three frames at
  \<open>0x1000\<close>, \<open>0x2000\<close> and \<open>0x3000\<close>.
\<close>

definition demo_strtol :: "string \<Rightarrow> int" where
  "demo_strtol s = sint (word_of_int (fold (\<lambda>c a. 10 * a + (of_char c - 48)) s 0) :: u32)"

definition demo_walk ::
  "(u32 \<Rightarrow> u32 option) \<Rightarrow> u32 \<Rightarrow> int \<Rightarrow> (u32 \<Rightarrow> u32 option) \<times> u32 option" where
  "demo_walk pt va create =
     (case pt (va AND NOT 0xFFF) of
        Some e \<Rightarrow> (pt, Some e)
      | None \<Rightarrow> if create = 0 then (pt, None) else (pt(va AND NOT 0xFFF \<mapsto> 0), Some 0))"

definition demo_info :: "string \<Rightarrow> int \<Rightarrow> string \<Rightarrow> u32 \<Rightarrow> Eipdebuginfo" where
  "demo_info file line name addr =
     \<lparr>eip_file = file, eip_line = line, eip_fn_name = name,
      eip_fn_namelen = int (length name), eip_fn_addr = addr\<rparr>"

definition demo_debuginfo :: "u32 \<Rightarrow> int \<times> Eipdebuginfo" where
  "demo_debuginfo eip =
     (if 0xF0100000 \<le> eip \<and> eip < 0xF0100100 then (0, demo_info ''kern/a.c'' 7 ''A'' 0xF0100000)
      else if 0xF0100100 \<le> eip \<and> eip < 0xF0100200 then (0, demo_info ''kern/b.c'' 21 ''B'' 0xF0100100)
      else if 0xF0100200 \<le> eip \<and> eip < 0xF0100300 then (0, demo_info ''kern/entry.S'' 3 ''entry'' 0xF0100200)
      else (- 1, demo_info ''<unknown>'' 0 ''<unknown>'' eip))"

definition demo_env :: "(u32 \<Rightarrow> u32 option) kenv" where
  "demo_env =
     \<lparr>strtol = demo_strtol, pgdir_walk = demo_walk, PTE_P = 1, PTE_W = 2, PTE_U = 4,
      debuginfo_eip = demo_debuginfo, read_ebp = 0x1000\<rparr>"

definition demo_stack :: "u32 \<Rightarrow> u32" where
  "demo_stack =
     (\<lambda>a. 0)(0x1000 := 0x2000, 0x1004 := 0xF010000A,
             0x2000 := 0x3000, 0x2004 := 0xF0100114,
             0x3000 := 0, 0x3004 := 0xF0100205)"

definition demo_pgdir :: "u32 \<Rightarrow> u32 option" where
  "demo_pgdir = [0x00400000 \<mapsto> 0x00100007]"

definition demo_st :: "(u32 \<Rightarrow> u32 option) kstate" where
  "demo_st =
     \<lparr>console = [], kern_pgdir = demo_pgdir, stack_mem = demo_stack,
      walk_calls = [], eip_calls = [], loads = []\<rparr>"

text \<open>\<open>showmap 4194304 2\<close>, that is two pages from \<open>0x00400000\<close>.\<close>

definition demo_argv :: "nat \<Rightarrow> string" where
  "demo_argv i = (if i = 0 then ''showmap'' else if i = 1 then ''4194304'' else if i = 2 then ''2'' else [])"

text \<open>\<open>showmap 4294963200\<close>, that is one page from \<open>0xFFFFF000\<close>, the last page.\<close>

definition top_argv :: "nat \<Rightarrow> string" where
  "top_argv i = (if i = 0 then ''showmap'' else if i = 1 then ''4294963200'' else [])"

text \<open>\<open>showmap 4194427 3\<close>, that is three pages from the unaligned \<open>0x0040007B\<close>.\<close>

definition odd_argv :: "nat \<Rightarrow> string" where
  "odd_argv i = (if i = 0 then ''showmap'' else if i = 1 then ''4194427'' else if i = 2 then ''3'' else [])"

text \<open>The stack with the return address of the second frame outside all known code.\<close>

definition broken_st :: "(u32 \<Rightarrow> u32 option) kstate" where
  "broken_st = demo_st\<lparr>stack_mem := demo_stack(0x2004 := 0)\<rparr>"

text \<open>The stack with the first frame's saved frame pointer pointing to the frame itself.\<close>

definition cyclic_st :: "(u32 \<Rightarrow> u32 option) kstate" where
  "cyclic_st = demo_st\<lparr>stack_mem := demo_stack(0x1000 := 0x1000)\<rparr>"

text \<open>
  The stack with the third frame's saved frame pointer pointing back to the second frame:
  one frame, then a cycle of two.
\<close>

definition looping_st :: "(u32 \<Rightarrow> u32 option) kstate" where
  "looping_st = demo_st\<lparr>stack_mem := demo_stack(0x3000 := 0x2000)\<rparr>"

section \<open>Page arithmetic\<close>

lemma unat_PGSIZE: "unat PGSIZE = 4096"
  by (simp add: PGSIZE_def)

lemma unat_ROUNDDOWN: "unat (ROUNDDOWN a PGSIZE) = unat a - unat a mod 4096"
proof -
  have "a mod PGSIZE \<le> a"
    by (simp add: word_le_nat_alt unat_mod)
  then show ?thesis
    by (simp add: ROUNDDOWN_def unat_sub unat_mod unat_PGSIZE)
qed

lemma ROUNDDOWN_aligned: "4096 dvd unat (ROUNDDOWN a PGSIZE)"
  by (simp add: unat_ROUNDDOWN)

lemma ROUNDDOWN_id: "a mod PGSIZE = 0 \<Longrightarrow> ROUNDDOWN a PGSIZE = a"
  by (simp add: ROUNDDOWN_def)

lemma aligned_step:
  assumes "4096 dvd unat vs" "4096 dvd unat ve" "vs < ve"
  shows "unat (vs + PGSIZE) = unat vs + 4096" "unat vs + 4096 \<le> unat ve"
proof -
  from assms(3) have lt: "unat vs < unat ve" by (simp add: word_less_nat_alt)
  from assms(1) obtain a where a: "unat vs = 4096 * a" by (auto simp: dvd_def)
  from assms(2) obtain b where b: "unat ve = 4096 * b" by (auto simp: dvd_def)
  from lt a b have "a < b" by simp
  then have "4096 * a + 4096 \<le> 4096 * b" by simp
  with a b show le: "unat vs + 4096 \<le> unat ve" by simp
  have "unat ve < 2 ^ 32" using unsigned_less [of ve] by simp
  with le have "unat vs + unat PGSIZE < 2 ^ LENGTH(32)" by (simp add: unat_PGSIZE)
  then show "unat (vs + PGSIZE) = unat vs + 4096"
    by (simp add: unat_add_lem [THEN iffD1] unat_PGSIZE)
qed

lemma unat_page_addr:
  assumes "unat a + k * 4096 < 2 ^ 32"
  shows "unat (a + of_nat k * PGSIZE) = unat a + k * 4096"
proof -
  have "a + of_nat k * PGSIZE = (of_nat (unat a + k * 4096) :: u32)"
    by (simp add: PGSIZE_def)
  then have "unat (a + of_nat k * PGSIZE) = (unat a + k * 4096) mod 2 ^ 32"
    by (simp only: unat_of_nat) simp
  with assms show ?thesis by simp
qed

lemma pages_nowrap:
  assumes "unat s + unat n * 4096 < 2 ^ 32"
  shows "(unat (ROUNDDOWN (s + n * PGSIZE) PGSIZE) - unat (ROUNDDOWN s PGSIZE)) div 4096 = unat n"
proof -
  have "unat (s + of_nat (unat n) * PGSIZE) = unat s + unat n * 4096"
    using assms by (rule unat_page_addr)
  then have e: "unat (s + n * PGSIZE) = unat s + unat n * 4096"
    by simp
  have "unat s mod 4096 \<le> unat s" by simp
  then have "unat s + unat n * 4096 - unat s mod 4096 - (unat s - unat s mod 4096) = unat n * 4096"
    by linarith
  then show ?thesis
    by (simp add: unat_ROUNDDOWN e)
qed

lemma span_nowrap:
  assumes "unat s + unat n * 4096 < 2 ^ 32"
  shows "unat (ROUNDDOWN (s + n * PGSIZE) PGSIZE) = unat (ROUNDDOWN s PGSIZE) + unat n * 4096"
proof -
  have "unat (s + of_nat (unat n) * PGSIZE) = unat s + unat n * 4096"
    using assms by (rule unat_page_addr)
  then have e: "unat (s + n * PGSIZE) = unat s + unat n * 4096"
    by simp
  have "unat s mod 4096 \<le> unat s" by simp
  then have "unat s + unat n * 4096 - unat s mod 4096 = unat s - unat s mod 4096 + unat n * 4096"
    by linarith
  then show ?thesis
    by (simp add: unat_ROUNDDOWN e)
qed


section \<open>The inspection loop\<close>

lemma page_addrs_Suc: "page_addrs va (Suc n) = va # page_addrs (va + PGSIZE) n"
proof -
  have "[0..<Suc n] = 0 # map Suc [0..<n]"
    by (simp add: upt_conv_Cons map_Suc_upt del: upt_Suc)
  then show ?thesis
    by (simp add: page_addrs_def comp_def algebra_simps del: upt_Suc)
qed

lemma length_page_addrs: "length (page_addrs va n) = n"
  by (simp add: page_addrs_def)

lemma nth_page_addrs: "k < n \<Longrightarrow> page_addrs va n ! k = va + of_nat k * PGSIZE"
  by (simp add: page_addrs_def)

lemma showmap_page_eq:
  "showmap_page env va st =
     st\<lparr>console := console st @ [report_row env (va, 0, snd (pgdir_walk env (kern_pgdir st) va 0))],
        kern_pgdir := fst (pgdir_walk env (kern_pgdir st) va 0),
        walk_calls := walk_calls st @ [(va, 0, snd (pgdir_walk env (kern_pgdir st) va 0))]\<rparr>"
  by (cases "snd (pgdir_walk env (kern_pgdir st) va 0)")
     (simp_all add: showmap_page_def report_row_def cprintf_def PTE_ADDR_def notnot_def Let_def)

text \<open>Going through a list of pages: what is printed and logged, and the directory left.\<close>

lemma fold_showmap_page:
  "fold (showmap_page env) vas st =
     st\<lparr>console := console st @ map (report_row env) (walk_results env (kern_pgdir st) vas),
        kern_pgdir := walked_pgdir env (kern_pgdir st) vas,
        walk_calls := walk_calls st @ walk_results env (kern_pgdir st) vas\<rparr>"
proof (induction vas arbitrary: st)
  case Nil
  show ?case by simp
next
  case (Cons va vas)
  have "fold (showmap_page env) (va # vas) st = fold (showmap_page env) vas (showmap_page env va st)"
    by simp
  also note Cons.IH [of "showmap_page env va st"]
  also have "(showmap_page env va st)
       \<lparr>console := console (showmap_page env va st) @
          map (report_row env) (walk_results env (kern_pgdir (showmap_page env va st)) vas),
        kern_pgdir := walked_pgdir env (kern_pgdir (showmap_page env va st)) vas,
        walk_calls := walk_calls (showmap_page env va st) @
          walk_results env (kern_pgdir (showmap_page env va st)) vas\<rparr> =
     st\<lparr>console := console st @ map (report_row env) (walk_results env (kern_pgdir st) (va # vas)),
        kern_pgdir := walked_pgdir env (kern_pgdir st) (va # vas),
        walk_calls := walk_calls st @ walk_results env (kern_pgdir st) (va # vas)\<rparr>"
    by (simp add: showmap_page_eq)
  finally show ?case .
qed

text \<open>
  Between page-aligned bounds the loop ends: it visits the pages from \<open>vs\<close> up to \<open>ve\<close>,
  and none when \<open>ve\<close> is not above \<open>vs\<close>.
\<close>

lemma showmap_loop_fold:
  assumes "4096 dvd unat vs" "4096 dvd unat ve"
  shows "showmap_loop env vs ve st =
           Some (fold (showmap_page env) (page_addrs vs ((unat ve - unat vs) div 4096)) st)"
  using assms
proof (induction "(unat ve - unat vs) div 4096" arbitrary: vs st)
  case 0
  have "\<not> vs < ve"
  proof
    assume lt: "vs < ve"
    from aligned_step(2) [OF "0.prems" lt] have "4096 \<le> unat ve - unat vs" by simp
    then have "1 \<le> (unat ve - unat vs) div 4096" by (simp add: div_greater_zero_iff)
    with "0.hyps" show False by simp
  qed
  with "0.hyps" [symmetric] show ?case
    by (subst showmap_loop.simps) (simp add: page_addrs_def)
next
  case (Suc n)
  from Suc.hyps(2) have "unat vs < unat ve" by (cases "unat vs < unat ve") auto
  then have lt: "vs < ve" by (simp add: word_less_nat_alt)
  note st = aligned_step [OF Suc.prems lt]
  have al: "4096 dvd unat (vs + PGSIZE)" using Suc.prems(1) by (simp add: st(1))
  have "unat ve - unat vs = (unat ve - unat (vs + PGSIZE)) + 4096"
    using st by simp
  then have "(unat ve - unat vs) div 4096 = Suc ((unat ve - unat (vs + PGSIZE)) div 4096)"
    by simp
  with Suc.hyps(2) have n: "n = (unat ve - unat (vs + PGSIZE)) div 4096"
    by simp
  have "showmap_loop env vs ve st = showmap_loop env (vs + PGSIZE) ve (showmap_page env vs st)"
    using lt by (subst showmap_loop.simps) simp
  also have "\<dots> = Some (fold (showmap_page env) (page_addrs (vs + PGSIZE) n) (showmap_page env vs st))"
    unfolding n by (rule Suc.hyps(1) [OF n al Suc.prems(2)])
  finally show ?case
    by (simp add: Suc.hyps(2) [symmetric] page_addrs_Suc)
qed

lemma mon_showmap_usage:
  "argc < 2 \<Longrightarrow> mon_showmap env argc argv tf st = Some (0, cprintf showmap_msg [] st)"
  by (simp add: mon_showmap_def)

lemma mon_showmap_fold:
  assumes "2 \<le> argc"
  shows "mon_showmap env argc argv tf st =
           Some (0, fold (showmap_page env) (inspected_pages env argc argv) st)"
proof -
  let ?vs = "ROUNDDOWN (start_address env argv) PGSIZE"
  let ?ve = "ROUNDDOWN (start_address env argv + page_count env argc argv * PGSIZE) PGSIZE"
  have "mon_showmap env argc argv tf st = map_option (Pair 0) (showmap_loop env ?vs ?ve st)"
    using assms by (simp add: mon_showmap_def start_address_def page_count_def Let_def)
  also have "showmap_loop env ?vs ?ve st =
      Some (fold (showmap_page env) (page_addrs ?vs ((unat ?ve - unat ?vs) div 4096)) st)"
    by (rule showmap_loop_fold) (rule ROUNDDOWN_aligned)+
  finally show ?thesis
    by (simp add: inspected_pages_def Let_def)
qed

text \<open>The whole effect of an inspection with an address argument.\<close>

lemma mon_showmap_state:
  assumes "2 \<le> argc"
  shows "mon_showmap env argc argv tf st =
           Some (0, st\<lparr>console := console st @
                          map (report_row env)
                            (walk_results env (kern_pgdir st) (inspected_pages env argc argv)),
                        kern_pgdir := walked_pgdir env (kern_pgdir st) (inspected_pages env argc argv),
                        walk_calls := walk_calls st @
                          walk_results env (kern_pgdir st) (inspected_pages env argc argv)\<rparr>)"
  by (simp only: mon_showmap_fold [OF assms] fold_showmap_page)

lemma inspected_pages_nowrap:
  assumes "unat (start_address env argv) + unat (page_count env argc argv) * 4096 < 2 ^ 32"
  shows "inspected_pages env argc argv =
           page_addrs (ROUNDDOWN (start_address env argv) PGSIZE) (unat (page_count env argc argv))"
  by (simp add: inspected_pages_def Let_def pages_nowrap [OF assms])

lemma length_walk_results: "length (walk_results env pt vas) = length vas"
  by (induction vas arbitrary: pt) simp_all

lemma map_fst_walk_results: "map fst (walk_results env pt vas) = vas"
  by (induction vas arbitrary: pt) simp_all

lemma create_walk_results: "c \<in> set (walk_results env pt vas) \<Longrightarrow> fst (snd c) = 0"
  by (induction vas arbitrary: pt) auto

lemma fst_nth_walk_results:
  assumes "k < length vas"
  shows "fst (walk_results env pt vas ! k) = vas ! k"
proof -
  have "fst (walk_results env pt vas ! k) = map fst (walk_results env pt vas) ! k"
    using assms by (simp add: length_walk_results)
  then show ?thesis by (simp add: map_fst_walk_results)
qed

lemma walked_pgdir_same:
  assumes "\<forall>pt va. fst (pgdir_walk env pt va 0) = pt"
  shows "walked_pgdir env pt vas = pt"
  using assms by (induction vas arbitrary: pt) simp_all

lemma row_va_report_row: "row_va (report_row env c) = Some (fst c)"
  by (simp add: report_row_def split: option.split)

section \<open>The unwinding loop\<close>

lemma unwound_Nil: "unwound env [] st = st"
  by (simp add: unwound_def)

lemma backtrace_loop_zero: "backtrace_loop env 0 prev st = Some st"
  by (subst backtrace_loop.simps) simp

lemma backtrace_loop_fail:
  assumes "ebp \<noteq> 0" "fst (debuginfo_eip env (stack_mem st (ebp + 4))) \<noteq> 0"
  shows "backtrace_loop env ebp ebp st =
           Some (st\<lparr>loads := loads st @ [ebp + 4],
                    eip_calls := eip_calls st @ [stack_mem st (ebp + 4)]\<rparr>)"
  using assms by (subst backtrace_loop.simps) (simp add: Let_def deref_def)

lemma backtrace_loop_step:
  assumes "ebp \<noteq> 0" "fst (debuginfo_eip env (stack_mem st (ebp + 4))) = 0"
  shows "backtrace_loop env ebp ebp st =
           backtrace_loop env (stack_mem st ebp) (stack_mem st ebp) (unwound env [ebp] st)"
proof -
  let ?st2 = "st\<lparr>loads := loads st @ [ebp + 4], eip_calls := eip_calls st @ [stack_mem st (ebp + 4)],
    console := console st @ frame_entry env st ebp, loads := (loads st @ [ebp + 4]) @ body_loads ebp\<rparr>"
  have "backtrace_loop env ebp ebp st = backtrace_loop env (stack_mem st ebp) (stack_mem st ebp) ?st2"
    using assms
    by (subst backtrace_loop.simps)
       (simp add: Let_def deref_def frame_entry_def frame_lines_def)
  moreover have "?st2 = unwound env [ebp] st"
    by (rule kstate.equality) (simp_all add: unwound_def)
  ultimately show ?thesis by simp
qed

lemma frame_entry_mem:
  "stack_mem st' = stack_mem st \<Longrightarrow> frame_entry env st' = frame_entry env st"
  by (rule ext) (simp add: frame_entry_def frame_lines_def deref_def)

lemma unwound_Cons: "unwound env fps (unwound env [fp] st) = unwound env (fp # fps) st"
proof -
  have "stack_mem (unwound env [fp] st) = stack_mem st"
    by (simp add: unwound_def)
  then have fe: "frame_entry env (unwound env [fp] st) = frame_entry env st"
    by (rule frame_entry_mem)
  show ?thesis
    by (rule kstate.equality) (simp_all add: unwound_def fe [unfolded unwound_def, simplified])
qed

text \<open>Along a segment of resolvable frames the loop prints their entries and goes on.\<close>

lemma backtrace_loop_seg:
  assumes "frame_seg (stack_mem st) ebp fps nxt" "\<forall>fp\<in>set fps. resolves env (stack_mem st) fp"
  shows "backtrace_loop env ebp ebp st = backtrace_loop env nxt nxt (unwound env fps st)"
  using assms
proof (induction fps arbitrary: ebp st)
  case Nil
  then show ?case by (simp add: unwound_Nil)
next
  case (Cons fp fps)
  from Cons.prems have e: "ebp = fp" "fp \<noteq> 0"
    and seg: "frame_seg (stack_mem st) (stack_mem st fp) fps nxt"
    and r: "resolves env (stack_mem st) fp"
    and rs: "\<forall>fp\<in>set fps. resolves env (stack_mem st) fp"
    by simp_all
  have m: "stack_mem (unwound env [fp] st) = stack_mem st"
    by (simp add: unwound_def)
  have "backtrace_loop env fp fp st =
          backtrace_loop env (stack_mem st fp) (stack_mem st fp) (unwound env [fp] st)"
    using e(2) r by (intro backtrace_loop_step) (simp_all add: resolves_def)
  also have "\<dots> = backtrace_loop env nxt nxt (unwound env fps (unwound env [fp] st))"
    by (rule Cons.IH) (simp_all add: m seg rs)
  finally show ?case
    by (simp add: e(1) unwound_Cons)
qed

text \<open>The loop ends where the segment ends in the null pointer or in an unresolved frame.\<close>

lemma backtrace_loop_ends:
  assumes seg: "frame_seg (stack_mem st) ebp fps nxt"
    and res: "\<forall>fp\<in>set fps. resolves env (stack_mem st) fp"
    and stop: "nxt = 0 \<or> \<not> resolves env (stack_mem st) nxt"
  shows "\<exists>st'. backtrace_loop env ebp ebp st = Some st' \<and>
           console st' = console st @ concat (map (frame_entry env st) fps)"
proof (cases "nxt = 0")
  case True
  have "backtrace_loop env ebp ebp st = Some (unwound env fps st)"
    by (simp add: backtrace_loop_seg [OF seg res] True backtrace_loop_zero)
  then show ?thesis by (simp add: unwound_def)
next
  case False
  with stop have "fst (debuginfo_eip env (stack_mem (unwound env fps st) (nxt + 4))) \<noteq> 0"
    by (simp add: resolves_def unwound_def)
  from backtrace_loop_fail [OF False this] show ?thesis
    by (simp add: backtrace_loop_seg [OF seg res] unwound_def)
qed

text \<open>A frame that points to itself and resolves keeps the loop going for ever.\<close>

lemma backtrace_loop_cycle:
  assumes nz: "ebp \<noteq> 0" and self: "mem ebp = ebp"
    and res: "fst (debuginfo_eip env (mem (ebp + 4))) = 0"
    and m: "stack_mem st = mem"
  shows "backtrace_loop env ebp ebp st = None"
proof (rule ccontr)
  assume "backtrace_loop env ebp ebp st \<noteq> None"
  then obtain y where y: "backtrace_loop env ebp ebp st = Some y" by auto
  have "env = env \<longrightarrow> ebp = ebp \<longrightarrow> ebp = ebp \<longrightarrow> stack_mem st = mem \<longrightarrow> False"
  proof (rule backtrace_loop.raw_induct
      [where P = "\<lambda>e b p s r. e = env \<longrightarrow> b = ebp \<longrightarrow> p = ebp \<longrightarrow> stack_mem s = mem \<longrightarrow> False",
        OF _ y])
    fix f e b p s r
    assume IH: "\<And>e b p s r. f e b p s = Some r \<Longrightarrow>
        e = env \<longrightarrow> b = ebp \<longrightarrow> p = ebp \<longrightarrow> stack_mem s = mem \<longrightarrow> False"
      and eq: "(if b = 0 then Some s
      else let eip = deref s p 1;
               st1 = s\<lparr>loads := loads s @ [p + 4 * 1], eip_calls := eip_calls s @ [eip]\<rparr>;
               r = debuginfo_eip e eip
           in if fst r \<noteq> 0 then Some st1
              else let st2 = st1\<lparr>console := console st1 @ frame_lines st1 b p (snd r),
                               loads := loads st1 @ body_loads p\<rparr>;
                       ebp' = deref st2 p 0; prev' = ebp'
                   in f e ebp' prev' st2) = Some r"
    show "e = env \<longrightarrow> b = ebp \<longrightarrow> p = ebp \<longrightarrow> stack_mem s = mem \<longrightarrow> False"
    proof (intro impI)
      assume h: "e = env" "b = ebp" "p = ebp" "stack_mem s = mem"
      from eq h nz self res obtain s2 where "f env ebp ebp s2 = Some r" "stack_mem s2 = mem"
        by (simp add: Let_def deref_def)
      with IH show False by blast
    qed
  qed
  with m show False by simp
qed

lemma mon_backtrace_unfold:
  "mon_backtrace env argc argv tf st =
     map_option (Pair 0)
       (backtrace_loop env (read_ebp env) (read_ebp env) (cprintf backtrace_header [] st))"
  by (simp add: mon_backtrace_def Let_def)

lemma mon_backtrace_ends:
  assumes seg: "frame_seg (stack_mem st) (read_ebp env) fps nxt"
    and res: "\<forall>fp\<in>set fps. resolves env (stack_mem st) fp"
    and stop: "nxt = 0 \<or> \<not> resolves env (stack_mem st) nxt"
  shows "\<exists>st'. mon_backtrace env argc argv tf st = Some (0, st') \<and>
           console st' =
             console st @ Cprintf backtrace_header [] # concat (map (frame_entry env st) fps)"
proof -
  let ?st1 = "cprintf backtrace_header [] st"
  have m: "stack_mem ?st1 = stack_mem st"
    by (simp add: cprintf_def)
  have fe: "frame_entry env ?st1 = frame_entry env st"
    using m by (rule frame_entry_mem)
  have c: "console ?st1 = console st @ [Cprintf backtrace_header []]"
    by (simp add: cprintf_def)
  from backtrace_loop_ends [of ?st1 "read_ebp env" fps nxt env] seg res stop
  obtain st' where "backtrace_loop env (read_ebp env) (read_ebp env) ?st1 = Some st'"
    and "console st' = console ?st1 @ concat (map (frame_entry env ?st1) fps)"
    by (auto simp add: m)
  then show ?thesis
    by (simp add: mon_backtrace_unfold fe c)
qed

lemma frame_seg_member:
  assumes "frame_seg mem ebp fps nxt" "fp \<in> set fps"
  shows "fp \<noteq> 0 \<and> (mem fp \<in> set fps \<or> mem fp = nxt)"
  using assms
proof (induction fps arbitrary: ebp)
  case Nil
  then show ?case by simp
next
  case (Cons a fps)
  from Cons.prems(1) have a: "ebp = a" "a \<noteq> 0" and seg: "frame_seg mem (mem a) fps nxt"
    by simp_all
  show ?case
  proof (cases "fp = a")
    case True
    from seg have "mem a \<in> set fps \<or> mem a = nxt"
      by (cases fps) auto
    with True a show ?thesis by auto
  next
    case False
    with Cons.prems(2) have "fp \<in> set fps" by simp
    from Cons.IH [OF seg this] show ?thesis by auto
  qed
qed

lemma frame_seg_cycle_closed:
  assumes "frame_seg mem c cyc c" "cyc \<noteq> []" "fp \<in> set cyc"
  shows "fp \<noteq> 0 \<and> mem fp \<in> set cyc"
proof -
  from assms(1,2) have "c \<in> set cyc" by (cases cyc) auto
  with frame_seg_member [OF assms(1,3)] show ?thesis by auto
qed

text \<open>
  From a frame in a set of resolved, non-null frames that is closed under following the
  saved frame pointer, the loop never ends.
\<close>

lemma backtrace_loop_closed:
  assumes closed: "\<And>fp. fp \<in> S \<Longrightarrow>
      fp \<noteq> 0 \<and> fst (debuginfo_eip env (mem (fp + 4))) = 0 \<and> mem fp \<in> S"
    and start: "ebp \<in> S" and m: "stack_mem st = mem"
  shows "backtrace_loop env ebp ebp st = None"
proof (rule ccontr)
  assume "backtrace_loop env ebp ebp st \<noteq> None"
  then obtain y where y: "backtrace_loop env ebp ebp st = Some y" by auto
  have "env = env \<longrightarrow> ebp = ebp \<longrightarrow> ebp \<in> S \<longrightarrow> stack_mem st = mem \<longrightarrow> False"
  proof (rule backtrace_loop.raw_induct
      [where P = "\<lambda>e b p s r. e = env \<longrightarrow> p = b \<longrightarrow> b \<in> S \<longrightarrow> stack_mem s = mem \<longrightarrow> False",
        OF _ y])
    fix f e b p s r
    assume IH: "\<And>e b p s r. f e b p s = Some r \<Longrightarrow>
        e = env \<longrightarrow> p = b \<longrightarrow> b \<in> S \<longrightarrow> stack_mem s = mem \<longrightarrow> False"
      and eq: "(if b = 0 then Some s
      else let eip = deref s p 1;
               st1 = s\<lparr>loads := loads s @ [p + 4 * 1], eip_calls := eip_calls s @ [eip]\<rparr>;
               r = debuginfo_eip e eip
           in if fst r \<noteq> 0 then Some st1
              else let st2 = st1\<lparr>console := console st1 @ frame_lines st1 b p (snd r),
                               loads := loads st1 @ body_loads p\<rparr>;
                       ebp' = deref st2 p 0; prev' = ebp'
                   in f e ebp' prev' st2) = Some r"
    show "e = env \<longrightarrow> p = b \<longrightarrow> b \<in> S \<longrightarrow> stack_mem s = mem \<longrightarrow> False"
    proof (intro impI)
      assume h: "e = env" "p = b" "b \<in> S" "stack_mem s = mem"
      from closed [OF h(3)] have c: "b \<noteq> 0" "fst (debuginfo_eip env (mem (b + 4))) = 0" "mem b \<in> S"
        by simp_all
      from eq h c(1,2) obtain s2 where "f env (mem b) (mem b) s2 = Some r" "stack_mem s2 = mem"
        by (simp add: Let_def deref_def)
      with IH c(3) show False by blast
    qed
  qed
  with start m show False by simp
qed

text \<open>A chain that runs, through resolved frames, into a cycle of resolved frames.\<close>

lemma mon_backtrace_cyclic:
  assumes pre: "frame_seg (stack_mem st) (read_ebp env) pre c"
    and cyc: "frame_seg (stack_mem st) c cyc c" "cyc \<noteq> []"
    and res: "\<forall>fp\<in>set (pre @ cyc). resolves env (stack_mem st) fp"
  shows "mon_backtrace env argc argv tf st = None"
proof -
  let ?st1 = "cprintf backtrace_header [] st"
  have m: "stack_mem ?st1 = stack_mem st"
    by (simp add: cprintf_def)
  from res have rp: "\<forall>fp\<in>set pre. resolves env (stack_mem ?st1) fp"
    by (simp add: m)
  from pre have "frame_seg (stack_mem ?st1) (read_ebp env) pre c"
    by (simp add: m)
  from backtrace_loop_seg [OF this rp]
  have "backtrace_loop env (read_ebp env) (read_ebp env) ?st1 =
      backtrace_loop env c c (unwound env pre ?st1)" .
  also have "\<dots> = None"
  proof (rule backtrace_loop_closed [where S = "set cyc" and mem = "stack_mem st"])
    fix fp
    assume fp: "fp \<in> set cyc"
    from frame_seg_cycle_closed [OF cyc fp] res fp
    show "fp \<noteq> 0 \<and> fst (debuginfo_eip env (stack_mem st (fp + 4))) = 0 \<and> stack_mem st fp \<in> set cyc"
      by (simp add: resolves_def)
  next
    from cyc show "c \<in> set cyc" by (cases cyc) auto
  next
    show "stack_mem (unwound env pre ?st1) = stack_mem st"
      by (simp add: unwound_def cprintf_def)
  qed
  finally show ?thesis
    by (simp add: mon_backtrace_unfold)
qed

section \<open>The example machine, evaluated\<close>

lemma length_entries: "length (concat (map (frame_entry env st) fps)) = 2 * length fps"
  by (induction fps) (simp_all add: frame_entry_def frame_lines_def)

lemma page_addrs_0: "page_addrs va 0 = []"
  by (simp add: page_addrs_def)

lemma page_addrs_1: "page_addrs va (Suc 0) = [va]"
  by (simp add: page_addrs_def)

lemma page_addrs_numeral:
  "page_addrs va (numeral n) = va # page_addrs (va + PGSIZE) (pred_numeral n)"
  by (simp add: numeral_eq_Suc page_addrs_Suc)

lemmas page_addrs_eval = page_addrs_0 page_addrs_1 page_addrs_numeral

lemma demo_chain:
  "frame_seg (stack_mem demo_st) (read_ebp demo_env) [0x1000, 0x2000, 0x3000] 0"
  by (simp add: demo_st_def demo_env_def demo_stack_def)

lemma demo_resolves:
  "\<forall>fp\<in>set [0x1000, 0x2000, 0x3000]. resolves demo_env (stack_mem demo_st) fp"
  by (simp add: resolves_def demo_st_def demo_env_def demo_stack_def demo_debuginfo_def)

lemma broken_chain:
  "frame_seg (stack_mem broken_st) (read_ebp demo_env) [0x1000] 0x2000"
  by (simp add: broken_st_def demo_st_def demo_env_def demo_stack_def)

lemma broken_resolves:
  "\<forall>fp\<in>set [0x1000]. resolves demo_env (stack_mem broken_st) fp"
  by (simp add: resolves_def broken_st_def demo_st_def demo_env_def demo_stack_def demo_debuginfo_def)

lemma broken_fails: "\<not> resolves demo_env (stack_mem broken_st) 0x2000"
  by (simp add: resolves_def broken_st_def demo_st_def demo_env_def demo_stack_def demo_debuginfo_def)

lemma demo_start: "start_address demo_env demo_argv = 0x400000"
  by (simp add: start_address_def demo_env_def demo_strtol_def demo_argv_def)

lemma demo_count: "page_count demo_env 3 demo_argv = 2"
  by (simp add: page_count_def demo_env_def demo_strtol_def demo_argv_def)

lemma demo_pages: "inspected_pages demo_env 3 demo_argv = [0x400000, 0x401000]"
  by (simp add: inspected_pages_def start_address_def page_count_def ROUNDDOWN_def PGSIZE_def
      Let_def page_addrs_eval demo_env_def demo_strtol_def demo_argv_def)


lemma demo_nonalloc: "\<forall>pt va. fst (pgdir_walk demo_env pt va 0) = pt"
  by (simp add: demo_env_def demo_walk_def split: option.split)

lemma odd_start: "start_address demo_env odd_argv = 0x40007B"
  by (simp add: start_address_def demo_env_def demo_strtol_def odd_argv_def)

lemma odd_count: "page_count demo_env 3 odd_argv = 3"
  by (simp add: page_count_def demo_env_def demo_strtol_def odd_argv_def)

lemma top_start: "start_address demo_env top_argv = 0xFFFFF000"
  by (simp add: start_address_def demo_env_def demo_strtol_def top_argv_def)

lemma top_pages: "inspected_pages demo_env 2 top_argv = []"
  by (simp add: inspected_pages_def start_address_def page_count_def ROUNDDOWN_def PGSIZE_def
      Let_def page_addrs_eval demo_env_def demo_strtol_def top_argv_def)

lemma looping_chain:
  "frame_seg (stack_mem looping_st) (read_ebp demo_env) [0x1000] 0x2000"
  "frame_seg (stack_mem looping_st) 0x2000 [0x2000, 0x3000] 0x2000"
  by (simp_all add: looping_st_def demo_st_def demo_env_def demo_stack_def)

lemma looping_resolves:
  "\<forall>fp\<in>set ([0x1000] @ [0x2000, 0x3000]). resolves demo_env (stack_mem looping_st) fp"
  by (simp add: resolves_def looping_st_def demo_st_def demo_env_def demo_stack_def
      demo_debuginfo_def)

section \<open>Rows of an inspection that does not wrap\<close>

lemma showmap_rows:
  assumes argc: "2 \<le> argc"
    and nowrap: "unat (start_address env argv) + unat (page_count env argc argv) * 4096 < 2 ^ 32"
  shows "\<exists>st' out. mon_showmap env argc argv tf st = Some (0, st') \<and>
           console st' = console st @ out \<and>
           length out = unat (page_count env argc argv) \<and>
           (\<forall>k<unat (page_count env argc argv).
              row_va (out ! k) =
                Some (ROUNDDOWN (start_address env argv) PGSIZE + of_nat k * PGSIZE))"
proof -
  let ?n = "unat (page_count env argc argv)"
  let ?vs = "ROUNDDOWN (start_address env argv) PGSIZE"
  let ?calls = "walk_results env (kern_pgdir st) (page_addrs ?vs ?n)"
  let ?out = "map (report_row env) ?calls"
  have len: "length ?out = ?n"
    by (simp add: length_walk_results length_page_addrs)
  have va: "row_va (?out ! k) = Some (?vs + of_nat k * PGSIZE)" if "k < ?n" for k
    using that
    by (simp add: length_walk_results length_page_addrs row_va_report_row
        fst_nth_walk_results nth_page_addrs)
  from mon_showmap_state [OF argc, of env argv tf st]
  have "mon_showmap env argc argv tf st =
          Some (0, st\<lparr>console := console st @ ?out,
                       kern_pgdir := walked_pgdir env (kern_pgdir st) (page_addrs ?vs ?n),
                       walk_calls := walk_calls st @ ?calls\<rparr>)"
    by (simp only: inspected_pages_nowrap [OF nowrap])
  with len va show ?thesis
    by (intro exI [where x = ?out] exI conjI) (assumption | simp)+
qed


lemma mon_showmap_pgdir:
  assumes "\<forall>pt va. fst (pgdir_walk env pt va 0) = pt"
  shows "\<exists>st'. mon_showmap env argc argv tf st = Some (0, st') \<and> kern_pgdir st' = kern_pgdir st"
proof (cases "argc < 2")
  case True
  then show ?thesis by (simp add: mon_showmap_usage cprintf_def)
next
  case False
  then have a: "2 \<le> argc" by simp
  show ?thesis
    by (simp add: mon_showmap_state [OF a] walked_pgdir_same [OF assms])
qed

section \<open>The claims\<close>

subsection \<open>C1: one row per page from a page-aligned start\<close>

text \<open>
  C1, as stated, fails where the end address wraps: for the last page of the address
  space, \<open>showmap 4294963200\<close> (start \<open>0xFFFFF000\<close>, page-aligned, count 1), the sum
  \<open>vstart + vlen * PGSIZE\<close> wraps to 0, the test \<open>vstart < vend\<close> fails at once, and the
  command prints no row instead of one and changes nothing.
\<close>

theorem showmap_last_page_counterexample:
  "start_address demo_env top_argv = 0xFFFFF000 \<and>
   start_address demo_env top_argv mod PGSIZE = 0 \<and>
   page_count demo_env 2 top_argv = 1 \<and>
   mon_showmap demo_env 2 top_argv 0 demo_st = Some (0, demo_st)"
proof -
  have "mon_showmap demo_env 2 top_argv 0 demo_st = Some (0, demo_st)"
    by (simp add: mon_showmap_fold top_pages)
  then show ?thesis
    by (simp add: top_start page_count_def PGSIZE_def)
qed

text \<open>
  C1, amended: for every page-aligned start address and every positive page count such that
  \<open>startAddress + pageCount * PAGE_SIZE\<close> is below \<open>2 ^ 32\<close> (the end address does not
  wrap), \<open>mon_showmap\<close> returns 0 and appends exactly \<open>pageCount\<close> report rows; the
  \<open>k\<close>-th row's virtual address is \<open>startAddress + k * PAGE_SIZE\<close> for \<open>k\<close> in
  \<open>[0, pageCount)\<close>, and these addresses ascend (none of them wraps).
\<close>

theorem showmap_aligned_rows:
  assumes "2 \<le> argc"
    and "start_address env argv mod PGSIZE = 0"
    and "0 < page_count env argc argv"
    and "unat (start_address env argv) + unat (page_count env argc argv) * 4096 < 2 ^ 32"
  shows "\<exists>st' out. mon_showmap env argc argv tf st = Some (0, st') \<and>
           console st' = console st @ out \<and>
           length out = unat (page_count env argc argv) \<and>
           (\<forall>k<unat (page_count env argc argv).
              row_va (out ! k) = Some (start_address env argv + of_nat k * PGSIZE) \<and>
              unat (start_address env argv + of_nat k * PGSIZE) =
                unat (start_address env argv) + k * 4096)"
proof -
  have asc: "unat (start_address env argv + of_nat k * PGSIZE) =
      unat (start_address env argv) + k * 4096" if "k < unat (page_count env argc argv)" for k
  proof -
    from that have "k * 4096 \<le> unat (page_count env argc argv) * 4096" by simp
    with assms(4) have "unat (start_address env argv) + k * 4096 < 2 ^ 32" by linarith
    then show ?thesis by (rule unat_page_addr)
  qed
  from showmap_rows [OF assms(1,4), of tf st] asc show ?thesis
    by (simp add: ROUNDDOWN_id [OF assms(2)])
qed

theorem showmap_aligned_rows_witness:
  "(2 :: int) \<le> 3 \<and> start_address demo_env demo_argv mod PGSIZE = 0 \<and>
   0 < page_count demo_env 3 demo_argv \<and>
   unat (start_address demo_env demo_argv) + unat (page_count demo_env 3 demo_argv) * 4096 < 2 ^ 32 \<and>
   (\<exists>st' out. mon_showmap demo_env 3 demo_argv 0 demo_st = Some (0, st') \<and>
      console st' = out \<and> length out = 2 \<and>
      row_va (out ! 0) = Some 0x400000 \<and> row_va (out ! 1) = Some 0x401000)"
proof -
  have h1: "(2 :: int) \<le> 3" by simp
  have h2: "start_address demo_env demo_argv mod PGSIZE = 0"
    by (simp add: demo_start PGSIZE_def)
  have h3: "0 < page_count demo_env 3 demo_argv"
    by (simp add: demo_count)
  have h4: "unat (start_address demo_env demo_argv) + unat (page_count demo_env 3 demo_argv) * 4096
      < 2 ^ 32"
    by (simp add: demo_start demo_count)
  from showmap_aligned_rows [OF h1 h2 h3 h4, of 0 demo_st]
  obtain st' out where r: "mon_showmap demo_env 3 demo_argv 0 demo_st = Some (0, st')"
    "console st' = console demo_st @ out" "length out = 2"
    "\<forall>k<2. row_va (out ! k) = Some (0x400000 + of_nat k * PGSIZE)"
    by (auto simp add: demo_start demo_count)
  from r(4) have "row_va (out ! 0) = Some 0x400000" "row_va (out ! 1) = Some 0x401000"
    by (simp_all add: PGSIZE_def)
  with r(1-3) h1 h2 h3 h4 show ?thesis
    by (simp add: demo_st_def)
qed

subsection \<open>C2: a complete, resolvable frame chain\<close>

text \<open>
  C2: for a frame chain \<open>fps\<close> of length \<open>n\<close> that starts at the frame pointer register,
  whose last saved frame pointer is zero and all of whose return addresses are resolved,
  \<open>mon_backtrace\<close> returns 0 and prints, after the header, exactly the \<open>n\<close> frame
  entries (two lines each), in the order of the chain: the frame nearest to the caller
  first.
\<close>

theorem backtrace_complete_chain:
  assumes "frame_seg (stack_mem st) (read_ebp env) fps 0"
    and "\<forall>fp\<in>set fps. resolves env (stack_mem st) fp"
  shows "\<exists>st'. mon_backtrace env argc argv tf st = Some (0, st') \<and>
           console st' =
             console st @ Cprintf backtrace_header [] # concat (map (frame_entry env st) fps) \<and>
           length (console st') = length (console st) + 1 + 2 * length fps"
proof -
  have "(0 :: u32) = 0 \<or> \<not> resolves env (stack_mem st) 0" by simp
  from mon_backtrace_ends [OF assms this, of argc argv tf] show ?thesis
    by (auto simp add: length_entries)
qed

theorem backtrace_complete_chain_witness:
  "frame_seg (stack_mem demo_st) (read_ebp demo_env) [0x1000, 0x2000, 0x3000] 0 \<and>
   resolves demo_env (stack_mem demo_st) 0x1000 \<and>
   resolves demo_env (stack_mem demo_st) 0x2000 \<and>
   resolves demo_env (stack_mem demo_st) 0x3000 \<and>
   (\<exists>st'. mon_backtrace demo_env 1 demo_argv 0 demo_st = Some (0, st') \<and>
      console st' =
        [Cprintf backtrace_header [],
         Cprintf frame_fmt [ArgWord 0x1000, ArgWord 0xF010000A, ArgWord 0, ArgWord 0, ArgWord 0,
           ArgWord 0, ArgWord 0],
         Cprintf loc_fmt [ArgStr ''kern/a.c'', ArgInt 7, ArgInt 1, ArgStr ''A'', ArgWord 10],
         Cprintf frame_fmt [ArgWord 0x2000, ArgWord 0xF0100114, ArgWord 0, ArgWord 0, ArgWord 0,
           ArgWord 0, ArgWord 0],
         Cprintf loc_fmt [ArgStr ''kern/b.c'', ArgInt 21, ArgInt 1, ArgStr ''B'', ArgWord 20],
         Cprintf frame_fmt [ArgWord 0x3000, ArgWord 0xF0100205, ArgWord 0, ArgWord 0, ArgWord 0,
           ArgWord 0, ArgWord 0],
         Cprintf loc_fmt [ArgStr ''kern/entry.S'', ArgInt 3, ArgInt 5, ArgStr ''entry'', ArgWord 5]])"
proof -
  have e: "concat (map (frame_entry demo_env demo_st) [0x1000, 0x2000, 0x3000]) =
        [Cprintf frame_fmt [ArgWord 0x1000, ArgWord 0xF010000A, ArgWord 0, ArgWord 0, ArgWord 0,
           ArgWord 0, ArgWord 0],
         Cprintf loc_fmt [ArgStr ''kern/a.c'', ArgInt 7, ArgInt 1, ArgStr ''A'', ArgWord 10],
         Cprintf frame_fmt [ArgWord 0x2000, ArgWord 0xF0100114, ArgWord 0, ArgWord 0, ArgWord 0,
           ArgWord 0, ArgWord 0],
         Cprintf loc_fmt [ArgStr ''kern/b.c'', ArgInt 21, ArgInt 1, ArgStr ''B'', ArgWord 20],
         Cprintf frame_fmt [ArgWord 0x3000, ArgWord 0xF0100205, ArgWord 0, ArgWord 0, ArgWord 0,
           ArgWord 0, ArgWord 0],
         Cprintf loc_fmt [ArgStr ''kern/entry.S'', ArgInt 3, ArgInt 5, ArgStr ''entry'', ArgWord 5]]"
    by (simp add: frame_entry_def frame_lines_def deref_def demo_st_def demo_env_def demo_stack_def
        demo_debuginfo_def demo_info_def)
  have c: "console demo_st = []" by (simp add: demo_st_def)
  from backtrace_complete_chain [OF demo_chain demo_resolves, of 1 demo_argv 0]
  obtain st' where "mon_backtrace demo_env 1 demo_argv 0 demo_st = Some (0, st')"
    and "console st' = console demo_st @
      Cprintf backtrace_header [] #
      concat (map (frame_entry demo_env demo_st) [0x1000, 0x2000, 0x3000])"
    by blast
  then have "\<exists>st'. mon_backtrace demo_env 1 demo_argv 0 demo_st = Some (0, st') \<and>
      console st' =
        [Cprintf backtrace_header [],
         Cprintf frame_fmt [ArgWord 0x1000, ArgWord 0xF010000A, ArgWord 0, ArgWord 0, ArgWord 0,
           ArgWord 0, ArgWord 0],
         Cprintf loc_fmt [ArgStr ''kern/a.c'', ArgInt 7, ArgInt 1, ArgStr ''A'', ArgWord 10],
         Cprintf frame_fmt [ArgWord 0x2000, ArgWord 0xF0100114, ArgWord 0, ArgWord 0, ArgWord 0,
           ArgWord 0, ArgWord 0],
         Cprintf loc_fmt [ArgStr ''kern/b.c'', ArgInt 21, ArgInt 1, ArgStr ''B'', ArgWord 20],
         Cprintf frame_fmt [ArgWord 0x3000, ArgWord 0xF0100205, ArgWord 0, ArgWord 0, ArgWord 0,
           ArgWord 0, ArgWord 0],
         Cprintf loc_fmt [ArgStr ''kern/entry.S'', ArgInt 3, ArgInt 5, ArgStr ''entry'', ArgWord 5]]"
    by (simp only: e c append_Nil) simp
  with demo_chain demo_resolves show ?thesis
    by simp
qed

subsection \<open>C3: an unresolved return address\<close>

text \<open>
  C3: when the frames \<open>fps\<close> are resolved and the next frame \<open>bad\<close> has a return address
  that \<open>debuginfo_eip\<close> does not resolve, \<open>mon_backtrace\<close> prints the entries of \<open>fps\<close>
  and nothing for \<open>bad\<close>, and returns 0: the failure ends the loop and is not an error.
\<close>

theorem backtrace_unresolved_stops:
  assumes "frame_seg (stack_mem st) (read_ebp env) fps bad"
    and "\<forall>fp\<in>set fps. resolves env (stack_mem st) fp"
    and "bad \<noteq> 0" and "\<not> resolves env (stack_mem st) bad"
  shows "\<exists>st'. mon_backtrace env argc argv tf st = Some (0, st') \<and>
           console st' =
             console st @ Cprintf backtrace_header [] # concat (map (frame_entry env st) fps)"
proof -
  from assms(4) have "bad = 0 \<or> \<not> resolves env (stack_mem st) bad" by simp
  from mon_backtrace_ends [OF assms(1,2) this] show ?thesis .
qed

theorem backtrace_unresolved_stops_witness:
  "frame_seg (stack_mem broken_st) (read_ebp demo_env) [0x1000] 0x2000 \<and>
   resolves demo_env (stack_mem broken_st) 0x1000 \<and>
   (0x2000 :: u32) \<noteq> 0 \<and> \<not> resolves demo_env (stack_mem broken_st) 0x2000 \<and>
   (\<exists>st'. mon_backtrace demo_env 1 demo_argv 0 broken_st = Some (0, st') \<and>
      console st' =
        [Cprintf backtrace_header [],
         Cprintf frame_fmt [ArgWord 0x1000, ArgWord 0xF010000A, ArgWord 0, ArgWord 0, ArgWord 0,
           ArgWord 0, ArgWord 0],
         Cprintf loc_fmt [ArgStr ''kern/a.c'', ArgInt 7, ArgInt 1, ArgStr ''A'', ArgWord 10]])"
proof -
  have nz: "(0x2000 :: u32) \<noteq> 0" by simp
  have e: "concat (map (frame_entry demo_env broken_st) [0x1000]) =
        [Cprintf frame_fmt [ArgWord 0x1000, ArgWord 0xF010000A, ArgWord 0, ArgWord 0, ArgWord 0,
           ArgWord 0, ArgWord 0],
         Cprintf loc_fmt [ArgStr ''kern/a.c'', ArgInt 7, ArgInt 1, ArgStr ''A'', ArgWord 10]]"
    by (simp add: frame_entry_def frame_lines_def deref_def broken_st_def demo_st_def demo_env_def
        demo_stack_def demo_debuginfo_def demo_info_def)
  have c: "console broken_st = []" by (simp add: broken_st_def demo_st_def)
  from backtrace_unresolved_stops [OF broken_chain broken_resolves nz broken_fails, of 1 demo_argv 0]
  have "\<exists>st'. mon_backtrace demo_env 1 demo_argv 0 broken_st = Some (0, st') \<and>
      console st' =
        [Cprintf backtrace_header [],
         Cprintf frame_fmt [ArgWord 0x1000, ArgWord 0xF010000A, ArgWord 0, ArgWord 0, ArgWord 0,
           ArgWord 0, ArgWord 0],
         Cprintf loc_fmt [ArgStr ''kern/a.c'', ArgInt 7, ArgInt 1, ArgStr ''A'', ArgWord 10]]"
    by (simp only: e c append_Nil)
  with broken_chain broken_resolves nz broken_fails show ?thesis
    by simp
qed

subsection \<open>C4: the content of a row\<close>



subsection \<open>C5: a null frame pointer\<close>

text \<open>
  C5: when the frame pointer register is zero, \<open>mon_backtrace\<close> returns 0 having
  printed the header and no frame entry, without calling \<open>debuginfo_eip\<close> and without
  loading anything through the frame pointer.
\<close>

theorem backtrace_zero_ebp:
  assumes "read_ebp env = 0"
  shows "\<exists>st'. mon_backtrace env argc argv tf st = Some (0, st') \<and>
           console st' = console st @ [Cprintf backtrace_header []] \<and>
           eip_calls st' = eip_calls st \<and> loads st' = loads st"
  using assms by (simp add: mon_backtrace_unfold backtrace_loop_zero cprintf_def)

theorem backtrace_zero_ebp_witness:
  "read_ebp (demo_env\<lparr>read_ebp := 0\<rparr>) = 0 \<and>
   (\<exists>st'. mon_backtrace (demo_env\<lparr>read_ebp := 0\<rparr>) 1 demo_argv 0 demo_st = Some (0, st') \<and>
      console st' = [Cprintf backtrace_header []] \<and> eip_calls st' = [] \<and> loads st' = [])"
proof -
  have h: "read_ebp (demo_env\<lparr>read_ebp := 0\<rparr>) = 0" by simp
  show ?thesis
    using h backtrace_zero_ebp [OF h, of 1 demo_argv 0 demo_st]
    by (simp add: demo_st_def)
qed

subsection \<open>C6: no address argument\<close>

text \<open>
  C6: with \<open>argc < 2\<close>, \<open>mon_showmap\<close> prints the usage message and returns 0; it looks
  up no page and leaves the page directory as it is.
\<close>

theorem showmap_missing_argument:
  assumes "argc < 2"
  shows "\<exists>st'. mon_showmap env argc argv tf st = Some (0, st') \<and>
           console st' = console st @ [Cprintf showmap_msg []] \<and>
           walk_calls st' = walk_calls st \<and> kern_pgdir st' = kern_pgdir st"
  using assms by (simp add: mon_showmap_usage cprintf_def)

theorem showmap_missing_argument_witness:
  "(1 :: int) < 2 \<and>
   (\<exists>st'. mon_showmap demo_env 1 demo_argv 0 demo_st = Some (0, st') \<and>
      console st' = [Cprintf showmap_msg []] \<and> walk_calls st' = [] \<and> kern_pgdir st' = demo_pgdir)"
proof -
  have h: "(1 :: int) < 2" by simp
  show ?thesis
    using h showmap_missing_argument [OF h, of demo_env demo_argv 0 demo_st]
    by (simp add: demo_st_def)
qed

subsection \<open>C7: lookups never create\<close>

text \<open>
  C7: \<open>mon_showmap\<close> always returns; every call of \<open>pgdir_walk\<close> it makes has
  \<open>create = 0\<close>; memory is unchanged; and, \<open>pgdir_walk\<close> being a walker that does not
  change the page directory when \<open>create = 0\<close>, the page directory after the command is
  the one before it.
\<close>

theorem showmap_no_create:
  "\<exists>st'. mon_showmap env argc argv tf st = Some (0, st') \<and>
     (\<forall>c\<in>set (drop (length (walk_calls st)) (walk_calls st')). fst (snd c) = 0) \<and>
     stack_mem st' = stack_mem st \<and>
     ((\<forall>pt va. fst (pgdir_walk env pt va 0) = pt) \<longrightarrow> kern_pgdir st' = kern_pgdir st)"
proof (cases "argc < 2")
  case True
  then show ?thesis by (simp add: mon_showmap_usage cprintf_def)
next
  case False
  then have a: "2 \<le> argc" by simp
  show ?thesis
    by (simp add: mon_showmap_state [OF a] create_walk_results walked_pgdir_same)
qed

theorem showmap_no_create_witness:
  "(\<forall>pt va. fst (pgdir_walk demo_env pt va 0) = pt) \<and>
   (\<exists>st'. mon_showmap demo_env 3 demo_argv 0 demo_st = Some (0, st') \<and>
      (\<forall>c\<in>set (walk_calls st'). fst (snd c) = 0) \<and> kern_pgdir st' = demo_pgdir)"
proof -
  from showmap_no_create [of demo_env 3 demo_argv 0 demo_st]
  obtain st' where r: "mon_showmap demo_env 3 demo_argv 0 demo_st = Some (0, st')"
    "\<forall>c\<in>set (drop (length (walk_calls demo_st)) (walk_calls st')). fst (snd c) = 0"
    "(\<forall>pt va. fst (pgdir_walk demo_env pt va 0) = pt) \<longrightarrow> kern_pgdir st' = kern_pgdir demo_st"
    by blast
  from r(2) have "\<forall>c\<in>set (walk_calls st'). fst (snd c) = 0"
    by (simp add: demo_st_def)
  moreover from r(3) demo_nonalloc have "kern_pgdir st' = demo_pgdir"
    by (simp add: demo_st_def)
  ultimately show ?thesis
    using r(1) demo_nonalloc by blast
qed

subsection \<open>C8: the status\<close>

text \<open>
  C8, as stated, fails for \<open>mon_backtrace\<close>: on a stack whose first frame's saved frame
  pointer points to the frame itself and whose return address resolves, the loop never
  ends, so the command returns no status at all.
\<close>

theorem backtrace_cyclic_counterexample:
  "mon_backtrace demo_env 1 demo_argv 0 cyclic_st = None"
proof -
  have "backtrace_loop demo_env 0x1000 0x1000 (cprintf backtrace_header [] cyclic_st) = None"
    by (rule backtrace_loop_cycle [where mem = "demo_stack(0x1000 := 0x1000)"])
       (simp_all add: demo_env_def demo_debuginfo_def demo_stack_def cprintf_def cyclic_st_def demo_st_def)
  then show ?thesis
    by (simp add: mon_backtrace_unfold demo_env_def)
qed

text \<open>
  C8, amended: \<open>mon_showmap\<close> returns status 0 for every invocation. \<open>mon_backtrace\<close>
  returns no other status than 0; it does return 0 whenever the frame chain from the frame
  pointer register reaches, through resolved frames, a null frame pointer or a frame whose
  return address is not resolved; and it does not return when that chain runs, through
  resolved frames, into a cycle of resolved frames.
\<close>

theorem monitor_status:
  "(\<exists>st'. mon_showmap env argc argv tf st = Some (0, st')) \<and>
   (\<forall>r st'. mon_backtrace env argc argv tf st = Some (r, st') \<longrightarrow> r = 0) \<and>
   ((\<exists>fps nxt. frame_seg (stack_mem st) (read_ebp env) fps nxt \<and>
        (\<forall>fp\<in>set fps. resolves env (stack_mem st) fp) \<and>
        (nxt = 0 \<or> \<not> resolves env (stack_mem st) nxt)) \<longrightarrow>
    (\<exists>st'. mon_backtrace env argc argv tf st = Some (0, st'))) \<and>
   ((\<exists>pre c cyc. frame_seg (stack_mem st) (read_ebp env) pre c \<and>
        frame_seg (stack_mem st) c cyc c \<and> cyc \<noteq> [] \<and>
        (\<forall>fp\<in>set (pre @ cyc). resolves env (stack_mem st) fp)) \<longrightarrow>
    mon_backtrace env argc argv tf st = None)"
proof (intro conjI impI allI)
  show "\<exists>st'. mon_showmap env argc argv tf st = Some (0, st')"
  proof (cases "argc < 2")
    case True
    then show ?thesis by (simp add: mon_showmap_usage)
  next
    case False
    then have "2 \<le> argc" by simp
    then show ?thesis by (simp add: mon_showmap_fold)
  qed
next
  fix r st'
  assume "mon_backtrace env argc argv tf st = Some (r, st')"
  then show "r = 0" by (auto simp add: mon_backtrace_unfold)
next
  assume "\<exists>fps nxt. frame_seg (stack_mem st) (read_ebp env) fps nxt \<and>
        (\<forall>fp\<in>set fps. resolves env (stack_mem st) fp) \<and>
        (nxt = 0 \<or> \<not> resolves env (stack_mem st) nxt)"
  then obtain fps nxt where "frame_seg (stack_mem st) (read_ebp env) fps nxt"
    "\<forall>fp\<in>set fps. resolves env (stack_mem st) fp" "nxt = 0 \<or> \<not> resolves env (stack_mem st) nxt"
    by blast
  from mon_backtrace_ends [OF this, of argc argv tf]
  show "\<exists>st'. mon_backtrace env argc argv tf st = Some (0, st')" by blast
next
  assume "\<exists>pre c cyc. frame_seg (stack_mem st) (read_ebp env) pre c \<and>
        frame_seg (stack_mem st) c cyc c \<and> cyc \<noteq> [] \<and>
        (\<forall>fp\<in>set (pre @ cyc). resolves env (stack_mem st) fp)"
  then obtain pre c cyc where "frame_seg (stack_mem st) (read_ebp env) pre c"
    "frame_seg (stack_mem st) c cyc c" "cyc \<noteq> []"
    "\<forall>fp\<in>set (pre @ cyc). resolves env (stack_mem st) fp"
    by blast
  then show "mon_backtrace env argc argv tf st = None"
    by (rule mon_backtrace_cyclic)
qed

theorem monitor_status_witness:
  "(\<exists>st'. mon_showmap demo_env 3 demo_argv 0 demo_st = Some (0, st')) \<and>
   (\<exists>fps nxt. frame_seg (stack_mem demo_st) (read_ebp demo_env) fps nxt \<and>
        (\<forall>fp\<in>set fps. resolves demo_env (stack_mem demo_st) fp) \<and>
        (nxt = 0 \<or> \<not> resolves demo_env (stack_mem demo_st) nxt)) \<and>
   (\<exists>st'. mon_backtrace demo_env 3 demo_argv 0 demo_st = Some (0, st')) \<and>
   (\<exists>pre c cyc. frame_seg (stack_mem looping_st) (read_ebp demo_env) pre c \<and>
        frame_seg (stack_mem looping_st) c cyc c \<and> cyc \<noteq> [] \<and>
        (\<forall>fp\<in>set (pre @ cyc). resolves demo_env (stack_mem looping_st) fp)) \<and>
   mon_backtrace demo_env 3 demo_argv 0 looping_st = None"
proof -
  have h: "\<exists>fps nxt. frame_seg (stack_mem demo_st) (read_ebp demo_env) fps nxt \<and>
        (\<forall>fp\<in>set fps. resolves demo_env (stack_mem demo_st) fp) \<and>
        (nxt = 0 \<or> \<not> resolves demo_env (stack_mem demo_st) nxt)"
    using demo_chain demo_resolves by blast
  have "[0x2000, 0x3000 :: u32] \<noteq> []" by simp
  with looping_chain looping_resolves
  have l: "\<exists>pre c cyc. frame_seg (stack_mem looping_st) (read_ebp demo_env) pre c \<and>
        frame_seg (stack_mem looping_st) c cyc c \<and> cyc \<noteq> [] \<and>
        (\<forall>fp\<in>set (pre @ cyc). resolves demo_env (stack_mem looping_st) fp)"
    by blast
  from h l monitor_status [of demo_env 3 demo_argv 0 demo_st]
    monitor_status [of demo_env 3 demo_argv 0 looping_st]
  show ?thesis
    by blast
qed

subsection \<open>C9: the report is a function of the arguments and the page directory\<close>

text \<open>
  C9: from two states with the same page directory (whatever the console held before),
  \<open>mon_showmap\<close> with the same arguments returns 0 and appends the same output. A second
  call from the state the first one left is the case where the first call did not change
  the page directory.
\<close>

theorem showmap_deterministic:
  assumes "kern_pgdir sta = kern_pgdir stb"
  shows "\<exists>out sta' stb'. mon_showmap env argc argv tf sta = Some (0, sta') \<and>
           mon_showmap env argc argv tf stb = Some (0, stb') \<and>
           console sta' = console sta @ out \<and> console stb' = console stb @ out"
proof (cases "argc < 2")
  case True
  then show ?thesis by (simp add: mon_showmap_usage cprintf_def)
next
  case False
  then have a: "2 \<le> argc" by simp
  show ?thesis
    by (simp add: mon_showmap_state [OF a] assms)
qed

theorem showmap_deterministic_witness:
  "\<exists>st1 st2 out. mon_showmap demo_env 3 demo_argv 0 demo_st = Some (0, st1) \<and>
     kern_pgdir demo_st = kern_pgdir st1 \<and>
     mon_showmap demo_env 3 demo_argv 0 st1 = Some (0, st2) \<and>
     console st1 = console demo_st @ out \<and> console st2 = console st1 @ out \<and> out \<noteq> []"
proof -
  from mon_showmap_pgdir [OF demo_nonalloc, of 3 demo_argv 0 demo_st]
  obtain st1 where s1: "mon_showmap demo_env 3 demo_argv 0 demo_st = Some (0, st1)"
    and pg: "kern_pgdir demo_st = kern_pgdir st1"
    by auto
  from showmap_deterministic [OF pg, of demo_env 3 demo_argv 0]
  obtain out sta' st2 where r: "mon_showmap demo_env 3 demo_argv 0 demo_st = Some (0, sta')"
    "mon_showmap demo_env 3 demo_argv 0 st1 = Some (0, st2)"
    "console sta' = console demo_st @ out" "console st2 = console st1 @ out"
    by blast
  from r(1) s1 have e: "sta' = st1" by simp
  have h: "(2 :: int) \<le> 3" by simp
  from s1 r(3) e have "out \<noteq> []"
    by (auto simp add: mon_showmap_state [OF h] demo_pages)
  with s1 pg r e show ?thesis by blast
qed

subsection \<open>C10: an unaligned start\<close>

text \<open>
  C10: for every start address, aligned or not, and every positive page count such that
  \<open>startAddress + pageCount * PAGE_SIZE\<close> is below \<open>2 ^ 32\<close>, \<open>mon_showmap\<close> returns 0 and
  appends exactly \<open>pageCount\<close> rows, the first at \<open>ROUNDDOWN(startAddress, PAGE_SIZE)\<close> and
  the \<open>k\<close>-th \<open>k\<close> pages above it; the rounded end is exactly \<open>pageCount\<close> pages above the
  rounded start.
\<close>

theorem showmap_unaligned_rows:
  assumes "2 \<le> argc"
    and "0 < page_count env argc argv"
    and "unat (start_address env argv) + unat (page_count env argc argv) * 4096 < 2 ^ 32"
  shows "\<exists>st' out. mon_showmap env argc argv tf st = Some (0, st') \<and>
           console st' = console st @ out \<and>
           length out = unat (page_count env argc argv) \<and>
           row_va (out ! 0) = Some (ROUNDDOWN (start_address env argv) PGSIZE) \<and>
           (\<forall>k<unat (page_count env argc argv).
              row_va (out ! k) =
                Some (ROUNDDOWN (start_address env argv) PGSIZE + of_nat k * PGSIZE)) \<and>
           unat (ROUNDDOWN (start_address env argv + page_count env argc argv * PGSIZE) PGSIZE) =
             unat (ROUNDDOWN (start_address env argv) PGSIZE) +
             unat (page_count env argc argv) * 4096"
proof -
  from assms(2) have pos: "0 < unat (page_count env argc argv)"
    by (simp add: word_less_nat_alt)
  from showmap_rows [OF assms(1,3), of tf st]
  obtain st' out where r: "mon_showmap env argc argv tf st = Some (0, st')"
    "console st' = console st @ out" "length out = unat (page_count env argc argv)"
    "\<forall>k<unat (page_count env argc argv).
       row_va (out ! k) = Some (ROUNDDOWN (start_address env argv) PGSIZE + of_nat k * PGSIZE)"
    by blast
  from r(4) pos have "row_va (out ! 0) = Some (ROUNDDOWN (start_address env argv) PGSIZE)"
    by fastforce
  with r span_nowrap [OF assms(3)] show ?thesis
    by blast
qed

theorem showmap_unaligned_rows_witness:
  "(2 :: int) \<le> 3 \<and> 0 < page_count demo_env 3 odd_argv \<and>
   unat (start_address demo_env odd_argv) + unat (page_count demo_env 3 odd_argv) * 4096 < 2 ^ 32 \<and>
   start_address demo_env odd_argv = 0x40007B \<and>
   (\<exists>st' out. mon_showmap demo_env 3 odd_argv 0 demo_st = Some (0, st') \<and>
      console st' = out \<and> length out = 3 \<and>
      row_va (out ! 0) = Some 0x400000 \<and> row_va (out ! 1) = Some 0x401000 \<and>
      row_va (out ! 2) = Some 0x402000)"
proof -
  have h1: "(2 :: int) \<le> 3" by simp
  have h2: "0 < page_count demo_env 3 odd_argv"
    by (simp add: odd_count)
  have h3: "unat (start_address demo_env odd_argv) + unat (page_count demo_env 3 odd_argv) * 4096
      < 2 ^ 32"
    by (simp add: odd_start odd_count)
  have rd: "ROUNDDOWN (0x40007B :: u32) PGSIZE = 0x400000"
    by (simp add: ROUNDDOWN_def PGSIZE_def)
  from showmap_unaligned_rows [OF h1 h2 h3, of 0 demo_st]
  obtain st' out where r: "mon_showmap demo_env 3 odd_argv 0 demo_st = Some (0, st')"
    "console st' = console demo_st @ out" "length out = 3"
    "\<forall>k<3. row_va (out ! k) = Some (0x400000 + of_nat k * PGSIZE)"
    by (auto simp add: odd_start odd_count rd)
  from r(4) have "row_va (out ! 0) = Some 0x400000" "row_va (out ! 1) = Some 0x401000"
    "row_va (out ! 2) = Some 0x402000"
    by (simp_all add: PGSIZE_def)
  with r(1-3) h1 h2 h3 odd_start show ?thesis
    by (simp add: demo_st_def)
qed

end
